theory Spec2Isabelle
  imports Complex_Main
begin

section \<open>Arrays\<close>

text \<open>
  The optimizer works on numpy arrays. The traversal reads \<open>a_prev.shape[1]\<close> and takes
  means along axis 1, so its arrays are two-dimensional; an array is modelled as the list
  of its rows. Entries are real numbers: the model computes with exact arithmetic where
  numpy rounds to binary floating point, and it has no \<open>nan\<close> or \<open>inf\<close>. An array
  without rows has shape \<open>(0, 0)\<close> here.
\<close>

type_synonym array = "real list list"

text \<open>What Python raises, as values. \<open>NotANumber\<close> is no exception of Python: numpy
  divides by a zero batch size with a warning and yields \<open>nan\<close>, which the reals do not
  have, so the model stops there with this outcome.\<close>

datatype error =
    AttributeError
  | IndexError
  | KeyError
  | TypeError
  | ValueError
  | UnboundLocalError
  | NotANumber

definition shape :: "array \<Rightarrow> nat \<times> nat" where
  "shape a = (length a, case a of [] \<Rightarrow> 0 | r # _ \<Rightarrow> length r)"


definition np_zeros :: "nat \<times> nat \<Rightarrow> array" where
  "np_zeros s = replicate (fst s) (replicate (snd s) 0)"

text \<open>\<open>c * a\<close> for a Python float \<open>c\<close>.\<close>

definition np_scale :: "real \<Rightarrow> array \<Rightarrow> array" where
  "np_scale c a = map (map (\<lambda>x. c * x)) a"

text \<open>Broadcasting: two extents are compatible when they are equal or one of them is 1.\<close>

definition broadcast_dim :: "nat \<Rightarrow> nat \<Rightarrow> nat option" where
  "broadcast_dim m n =
     (if m = n then Some m else if m = 1 then Some n else if n = 1 then Some m else None)"

definition broadcast_to :: "nat \<times> nat \<Rightarrow> array \<Rightarrow> array" where
  "broadcast_to s a =
     map (\<lambda>i. map (\<lambda>j. a ! (if fst (shape a) = 1 then 0 else i)
                          ! (if snd (shape a) = 1 then 0 else j)) [0..<snd s]) [0..<fst s]"

text \<open>\<open>a + b\<close>, elementwise with broadcasting.\<close>

definition np_add :: "array \<Rightarrow> array \<Rightarrow> error + array" where
  "np_add a b =
     (case broadcast_dim (fst (shape a)) (fst (shape b)) of
        None \<Rightarrow> Inl ValueError
      | Some r \<Rightarrow>
          (case broadcast_dim (snd (shape a)) (snd (shape b)) of
             None \<Rightarrow> Inl ValueError
           | Some c \<Rightarrow>
               Inr (map2 (map2 (\<lambda>x y. x + y)) (broadcast_to (r, c) a) (broadcast_to (r, c) b))))"

text \<open>\<open>a -= b\<close>, in place: \<open>b\<close> must broadcast to the shape of \<open>a\<close>.\<close>

definition np_isub :: "array \<Rightarrow> array \<Rightarrow> error + array" where
  "np_isub a b =
     (if (fst (shape b) = fst (shape a) \<or> fst (shape b) = 1)
         \<and> (snd (shape b) = snd (shape a) \<or> snd (shape b) = 1)
      then Inr (map2 (map2 (\<lambda>x y. x - y)) a (broadcast_to (shape a) b))
      else Inl ValueError)"

text \<open>\<open>a.T\<close>.\<close>

definition np_transpose :: "array \<Rightarrow> array" where
  "np_transpose a = map (\<lambda>j. map (\<lambda>r. r ! j) a) [0..<snd (shape a)]"

text \<open>\<open>np.dot(a, b)\<close> of two matrices: the columns of \<open>a\<close> must be as many as the rows
  of \<open>b\<close>.\<close>

definition np_dot :: "array \<Rightarrow> array \<Rightarrow> error + array" where
  "np_dot a b =
     (if snd (shape a) = fst (shape b)
      then Inr (map (\<lambda>r. map (\<lambda>c. sum_list (map2 (\<lambda>x y. x * y) r c)) (np_transpose b)) a)
      else Inl ValueError)"

text \<open>\<open>a / m\<close> for the batch size \<open>m\<close>.\<close>

definition np_div :: "array \<Rightarrow> nat \<Rightarrow> error + array" where
  "np_div a m = (if m = 0 then Inl NotANumber else Inr (map (map (\<lambda>x. x / real m)) a))"

text \<open>\<open>np.mean(a, axis=1, keepdims=True)\<close>: the column of the row means.\<close>

definition np_mean_axis1 :: "array \<Rightarrow> error + array" where
  "np_mean_axis1 a =
     (if a \<noteq> [] \<and> snd (shape a) = 0 then Inl NotANumber
      else Inr (map (\<lambda>r. [sum_list r / real (length r)]) a))"

section \<open>Activation functions\<close>

text \<open>\<open>lib/util/activation_function.py\<close>: an activation function is an object with the two
  methods \<open>apply\<close> and \<open>apply_derivative\<close>.\<close>

record activation_function =
  act_apply :: "array \<Rightarrow> array"
  act_apply_derivative :: "array \<Rightarrow> array"

text \<open>\<open>Linear\<close>: \<open>apply\<close> returns \<open>z\<close>, \<open>apply_derivative\<close> returns \<open>np.ones(z.shape)\<close>.\<close>

definition LINEAR_ACTIVATION :: activation_function where
  "LINEAR_ACTIVATION =
     \<lparr>act_apply = (\<lambda>z. z),
      act_apply_derivative = (\<lambda>z. replicate (fst (shape z)) (replicate (snd (shape z)) 1))\<rparr>"

text \<open>\<open>Relu\<close>: \<open>apply\<close> returns \<open>(z > 0) * z\<close>, \<open>apply_derivative\<close> returns \<open>z > 0\<close>
  (a boolean array: \<open>True\<close> is 1, \<open>False\<close> is 0).\<close>

definition RELU_ACTIVATION :: activation_function where
  "RELU_ACTIVATION =
     \<lparr>act_apply = (\<lambda>z. map (map (\<lambda>x. (if x > 0 then 1 else 0) * x)) z),
      act_apply_derivative = (\<lambda>z. map (map (\<lambda>x. if x > 0 then 1 else 0)) z)\<rparr>"

section \<open>Layers, loss functions and results\<close>

text \<open>
  Modelled from the spec: the layer classes of \<open>lib/ml/layer/actual_layer.py\<close>, which the
  optimizer imports and matches on. The constructor arguments follow the class patterns of
  the optimizer: \<open>WeightLayer(weight)\<close>, \<open>BiasedWeightLayer(weight, bias)\<close>,
  \<open>ActivationLayer(fun)\<close>, \<open>CompositeLayer(values)\<close>, and a \<open>ReshapeLayer\<close> with a
  method \<open>apply\<close>. Every position of a composite is an object of its own: two positions
  share no layer and no parameter array.
\<close>

datatype layer =
    WeightLayer array
  | BiasedWeightLayer array array
  | ActivationLayer activation_function
  | ReshapeLayer "array \<Rightarrow> array"
  | CompositeLayer "layer list"

text \<open>
  Modelled from the spec: the class \<open>LossFunction\<close> of \<open>lib/ml/util/loss_function.py\<close>,
  with \<open>apply(y_true, y_pred)\<close> a float and \<open>apply_derivative(y_true, y_pred)\<close> an array.
\<close>

record loss_function =
  loss_apply :: "array \<Rightarrow> array \<Rightarrow> real"
  loss_apply_derivative :: "array \<Rightarrow> array \<Rightarrow> array"

text \<open>
  Modelled from the spec: the mean-squared-error loss of the concrete scenario,
  \<open>apply = (y_pred - y_true)\<^sup>2\<close> (averaged over the entries) and
  \<open>apply_derivative = 2 (y_pred - y_true)\<close>.
\<close>

definition mean_squared_error :: loss_function where
  "mean_squared_error =
     \<lparr>loss_apply = (\<lambda>y_true y_pred.
        (let sq = concat (map2 (map2 (\<lambda>p t. (p - t) * (p - t))) y_pred y_true)
         in sum_list sq / real (length sq))),
      loss_apply_derivative = (\<lambda>y_true y_pred. map2 (map2 (\<lambda>p t. 2 * (p - t))) y_pred y_true)\<rparr>"

text \<open>
  Modelled from the spec: \<open>OptimalResult\<close> of \<open>lib/ml/optimizer/nn_optimizer.py\<close>, the
  layer graph and the loss of a step.
\<close>

record optimal_result =
  result_layer :: layer
  result_loss :: real

text \<open>The value a Python name is bound to where it matters: \<open>optimize\<close> passes on either
  a loss function or an integer.\<close>

datatype pyobj = PyInt int | PyLossFunction loss_function

section \<open>The optimizer\<close>

text \<open>The velocity store: \<open>dict[int, dict[str, ArrayLike]]\<close>.\<close>

type_synonym velocity = "string \<rightharpoonup> array"
type_synonym velocity_store = "nat \<rightharpoonup> velocity"

text \<open>
  The instance attributes of \<open>GradientDescentOptimizer\<close>. The class body only annotates
  \<open>__target\<close> and \<open>__velocities\<close>, which creates no attribute: each is \<open>None\<close> here
  until a method assigns it, and reading it before raises \<open>AttributeError\<close>.
\<close>

record optimizer =
  learning_rate :: real
  momentum :: real
  target :: "layer option"
  velocities :: "velocity_store option"

text \<open>\<open>__init__\<close> assigns the learning rate and the momentum (0 when the caller gives
  none), nothing else.\<close>

definition GradientDescentOptimizer :: "real \<Rightarrow> real \<Rightarrow> optimizer" where
  "GradientDescentOptimizer lr mo =
     \<lparr>learning_rate = lr, momentum = mo, target = None, velocities = None\<rparr>"

subsection \<open>Velocity initialisation\<close>

text \<open>
  \<open>__init_velocity(layer, id)\<close>, on the velocity attribute; the parameter \<open>id\<close> is
  \<open>ident\<close> here. A composite passes the position of each child and ignores its own
  \<open>id\<close>. The loop over
  \<open>range(len(values))\<close> is \<open>init_velocity_loop\<close>, with the running index. The item
  assignment \<open>self.__velocities[id] = {...}\<close> builds the dictionary and then reads the
  attribute, so it raises before anything has changed.
\<close>

fun init_velocity :: "velocity_store option \<Rightarrow> layer \<Rightarrow> nat \<Rightarrow> error + velocity_store option"
  and init_velocity_loop ::
    "velocity_store option \<Rightarrow> layer list \<Rightarrow> nat \<Rightarrow> error + velocity_store option"
where
  "init_velocity vs (CompositeLayer values) ident = init_velocity_loop vs values 0"
| "init_velocity vs (BiasedWeightLayer weight bias) ident =
     (case vs of
        None \<Rightarrow> Inl AttributeError
      | Some m \<Rightarrow>
          Inr (Some (m(ident \<mapsto>
            [''dw'' \<mapsto> np_zeros (shape weight), ''db'' \<mapsto> np_zeros (shape bias)]))))"
| "init_velocity vs (WeightLayer weight) ident =
     (case vs of
        None \<Rightarrow> Inl AttributeError
      | Some m \<Rightarrow> Inr (Some (m(ident \<mapsto> [''dw'' \<mapsto> np_zeros (shape weight)]))))"
| "init_velocity vs (ActivationLayer f) ident = Inr vs"
| "init_velocity vs (ReshapeLayer t) ident = Inr vs"
| "init_velocity_loop vs [] i = Inr vs"
| "init_velocity_loop vs (v # rest) i =
     (case init_velocity vs v i of
        Inl e \<Rightarrow> Inl e
      | Inr vs' \<Rightarrow> init_velocity_loop vs' rest (Suc i))"

text \<open>\<open>prepare\<close>: the supplier is called once, the target is assigned, then the velocities
  are initialised. An exception leaves the target assigned.\<close>

definition prepare :: "optimizer \<Rightarrow> (unit \<Rightarrow> layer) \<Rightarrow> (error + unit) \<times> optimizer" where
  "prepare self params_supplier =
     (let t = params_supplier ();
          self1 = self\<lparr>target := Some t\<rparr>
      in case init_velocity (velocities self1) t 0 of
           Inl e \<Rightarrow> (Inl e, self1)
         | Inr vs \<Rightarrow> (Inr (), self1\<lparr>velocities := vs\<rparr>))"

subsection \<open>The velocity update\<close>

text \<open>\<open>__calculate_velocity(d, d_velocity)\<close>:
  \<open>self.__momentum * d_velocity + (1 - self.__momentum) * d\<close>.\<close>

definition calculate_velocity :: "real \<Rightarrow> array \<Rightarrow> array \<Rightarrow> error + array" where
  "calculate_velocity mo d d_velocity = np_add (np_scale mo d_velocity) (np_scale (1 - mo) d)"

text \<open>\<open>velocity[key] = self.__calculate_velocity(d, velocity[key])\<close>, on the dictionary
  of one layer.\<close>

definition step_velocity :: "real \<Rightarrow> velocity \<Rightarrow> string \<Rightarrow> array \<Rightarrow> error + velocity" where
  "step_velocity mo velocity key d =
     (case velocity key of
        None \<Rightarrow> Inl KeyError
      | Some d_velocity \<Rightarrow>
          (case calculate_velocity mo d d_velocity of
             Inl e \<Rightarrow> Inl e
           | Inr v \<Rightarrow> Inr (velocity(key \<mapsto> v))))"

text \<open>\<open>param -= self.__learning_rate * velocity[key]\<close>; the result is the new content of
  the parameter array.\<close>

definition descend :: "real \<Rightarrow> array \<Rightarrow> velocity \<Rightarrow> string \<Rightarrow> error + array" where
  "descend lr param velocity key =
     (case velocity key of
        None \<Rightarrow> Inl KeyError
      | Some v \<Rightarrow> np_isub param (np_scale lr v))"

text \<open>\<open>self.__velocities[layer_num]\<close>.\<close>

definition lookup_velocity :: "velocity_store option \<Rightarrow> nat \<Rightarrow> error + velocity" where
  "lookup_velocity vs layer_num =
     (case vs of
        None \<Rightarrow> Inl AttributeError
      | Some m \<Rightarrow> (case m layer_num of None \<Rightarrow> Inl KeyError | Some velocity \<Rightarrow> Inr velocity))"

subsection \<open>The traversal\<close>

text \<open>
  The objects a step mutates: the layers of the list handed to \<open>__optimize_deep\<close> (their
  parameter arrays are updated in place) and the velocity attribute. Every function below
  returns them as they are when it returns or raises.
\<close>

type_synonym heap = "layer list \<times> velocity_store option"

text \<open>What \<open>optimize_recursively\<close> returns: the pair \<open>(gradient, loss)\<close>, or \<open>None\<close> when
  no case of its \<open>match\<close> applies and the body falls through.\<close>

type_synonym step_result = "error + (array \<times> real) option"

text \<open>A statement that may raise, followed by the rest of the block: the exception
  propagates with the heap as it is then, \<open>h\<close>.\<close>

definition attempt ::
  "error + 'a \<Rightarrow> heap \<Rightarrow> ('a \<Rightarrow> step_result \<times> heap) \<Rightarrow> step_result \<times> heap" where
  "attempt r h k = (case r of Inl e \<Rightarrow> (Inl e, h) | Inr v \<Rightarrow> k v)"

text \<open>The base case, lines 58 to 61: both calls are attribute lookups on \<open>loss_fun\<close>.\<close>

definition base_case :: "pyobj \<Rightarrow> array \<Rightarrow> array \<Rightarrow> step_result" where
  "base_case loss_fun y_true a_prev =
     (case loss_fun of
        PyInt n \<Rightarrow> Inl AttributeError
      | PyLossFunction f \<Rightarrow>
          Inr (Some (loss_apply_derivative f y_true a_prev, loss_apply f y_true a_prev)))"

text \<open>Line 65: \<open>z = np.dot(it.weight, a_prev) + it.bias\<close>.\<close>

definition forward_biased :: "array \<Rightarrow> array \<Rightarrow> array \<Rightarrow> error + array" where
  "forward_biased weight bias a_prev =
     (case np_dot weight a_prev of Inl e \<Rightarrow> Inl e | Inr wa \<Rightarrow> np_add wa bias)"

text \<open>The velocity attribute with the dictionary of \<open>layer_num\<close> replaced.\<close>

definition store_velocity :: "heap \<Rightarrow> nat \<Rightarrow> velocity \<Rightarrow> heap" where
  "store_velocity h layer_num velocity =
     (fst h, Some ((case snd h of None \<Rightarrow> Map.empty | Some m \<Rightarrow> m)(layer_num \<mapsto> velocity)))"

text \<open>The layer \<open>it\<close>, at \<open>layer_num + 1\<close> of the list, with its parameters as updated.\<close>

definition store_layer :: "heap \<Rightarrow> nat \<Rightarrow> layer \<Rightarrow> heap" where
  "store_layer h layer_num it = ((fst h)[layer_num + 1 := it], snd h)"

text \<open>
  Lines 70 to 82, after the recursive call of the \<open>BiasedWeightLayer\<close> case: the layer
  \<open>it\<close> is the one at \<open>layer_num + 1\<close>, the velocities are those under \<open>layer_num\<close>.
\<close>

definition backward_biased ::
  "real \<Rightarrow> real \<Rightarrow> nat \<Rightarrow> array \<Rightarrow> array \<Rightarrow> array \<Rightarrow> nat \<Rightarrow> array \<Rightarrow> real \<Rightarrow> heap
     \<Rightarrow> step_result \<times> heap" where
  "backward_biased lr mo layer_num weight bias a_prev m dz loss h =
     attempt (np_dot dz (np_transpose a_prev)) h (\<lambda>dza.
     attempt (np_div dza m) h (\<lambda>dw.
     attempt (np_mean_axis1 dz) h (\<lambda>db.
     attempt (np_dot (np_transpose weight) dz) h (\<lambda>da.
     attempt (lookup_velocity (snd h) layer_num) h (\<lambda>velocity.
     attempt (step_velocity mo velocity ''dw'' dw) h (\<lambda>velocity1.
     attempt (step_velocity mo velocity1 ''db'' db) (store_velocity h layer_num velocity1)
       (\<lambda>velocity2.
     attempt (descend lr weight velocity2 ''dw'') (store_velocity h layer_num velocity2)
       (\<lambda>weight'.
     attempt (descend lr bias velocity2 ''db'')
       (store_layer (store_velocity h layer_num velocity2) layer_num
          (BiasedWeightLayer weight' bias))
       (\<lambda>bias'.
     (Inr (Some (da, loss)),
      store_layer (store_velocity h layer_num velocity2) layer_num
        (BiasedWeightLayer weight' bias')))))))))))"

text \<open>Lines 89 to 98, after the recursive call of the \<open>WeightLayer\<close> case.\<close>

definition backward_weight ::
  "real \<Rightarrow> real \<Rightarrow> nat \<Rightarrow> array \<Rightarrow> array \<Rightarrow> nat \<Rightarrow> array \<Rightarrow> real \<Rightarrow> heap
     \<Rightarrow> step_result \<times> heap" where
  "backward_weight lr mo layer_num weight a_prev m dz loss h =
     attempt (np_dot dz (np_transpose a_prev)) h (\<lambda>dza.
     attempt (np_div dza m) h (\<lambda>dw.
     attempt (np_dot (np_transpose weight) dz) h (\<lambda>da.
     attempt (lookup_velocity (snd h) layer_num) h (\<lambda>velocity.
     attempt (step_velocity mo velocity ''dw'' dw) h (\<lambda>velocity1.
     attempt (descend lr weight velocity1 ''dw'') (store_velocity h layer_num velocity1)
       (\<lambda>weight'.
     (Inr (Some (da, loss)),
      store_layer (store_velocity h layer_num velocity1) layer_num (WeightLayer weight'))))))))"

text \<open>
  \<open>dz, loss = optimize_recursively(layer_num + 1, ...)\<close>: an exception of the call
  propagates, and unpacking \<open>None\<close> raises \<open>TypeError\<close>; otherwise the rest of the case,
  \<open>k\<close>, runs on the pair.
\<close>

definition unpack ::
  "step_result \<times> heap \<Rightarrow> (array \<Rightarrow> real \<Rightarrow> heap \<Rightarrow> step_result \<times> heap) \<Rightarrow> step_result \<times> heap" where
  "unpack r k =
     (case fst r of
        Inl e \<Rightarrow> (Inl e, snd r)
      | Inr None \<Rightarrow> (Inl TypeError, snd r)
      | Inr (Some p) \<Rightarrow> k (fst p) (snd p) (snd r))"

text \<open>
  \<open>optimize_recursively(layer_num, a_prev)\<close>, the closure of \<open>__optimize_deep\<close>, with
  what it captures as parameters: the learning rate and the momentum of \<open>self\<close>,
  \<open>y_true\<close>, \<open>loss_fun\<close>, and the heap for \<open>layers\<close> and \<open>self.__velocities\<close>.

  The layer it matches on is \<open>layers[layer_num + 1]\<close>, which raises \<open>IndexError\<close> at the
  last position. The \<open>ActivationLayer\<close> case ends with
  \<open>dz = da_next * fun.apply_derivative(z)\<close>: \<open>z\<close> is a local variable of the function
  (the weighted cases assign it) that this case never binds, so evaluating the argument
  raises \<open>UnboundLocalError\<close>. A \<open>CompositeLayer\<close> matches no case.
\<close>

function optimize_recursively ::
  "real \<Rightarrow> real \<Rightarrow> array \<Rightarrow> pyobj \<Rightarrow> nat \<Rightarrow> array \<Rightarrow> heap \<Rightarrow> step_result \<times> heap" where
  "optimize_recursively lr mo y_true loss_fun layer_num a_prev h =
     (if layer_num \<ge> length (fst h) then (base_case loss_fun y_true a_prev, h)
      else if layer_num + 1 \<ge> length (fst h) then (Inl IndexError, h)
      else
        (case fst h ! (layer_num + 1) of
           BiasedWeightLayer weight bias \<Rightarrow>
             (case forward_biased weight bias a_prev of
                Inl e \<Rightarrow> (Inl e, h)
              | Inr z \<Rightarrow>
                  unpack (optimize_recursively lr mo y_true loss_fun (layer_num + 1) z h)
                    (backward_biased lr mo layer_num weight bias a_prev (snd (shape a_prev))))
         | WeightLayer weight \<Rightarrow>
             (case np_dot weight a_prev of
                Inl e \<Rightarrow> (Inl e, h)
              | Inr z \<Rightarrow>
                  unpack (optimize_recursively lr mo y_true loss_fun (layer_num + 1) z h)
                    (backward_weight lr mo layer_num weight a_prev (snd (shape a_prev))))
         | ActivationLayer f \<Rightarrow>
             unpack (optimize_recursively lr mo y_true loss_fun (layer_num + 1) (act_apply f a_prev) h)
               (\<lambda>da_next loss h'. (Inl UnboundLocalError, h'))
         | ReshapeLayer t \<Rightarrow>
             unpack (optimize_recursively lr mo y_true loss_fun (layer_num + 1) (t a_prev) h)
               (\<lambda>da_next loss h'. (Inr (Some (t da_next, loss)), h'))
         | CompositeLayer values \<Rightarrow> (Inr None, h)))"
  by pat_completeness auto
termination
  by (relation "measure (\<lambda>(lr, mo, y_true, loss_fun, layer_num, a_prev, h).
        length (fst h) - layer_num)") auto

declare optimize_recursively.simps [simp del]

text \<open>\<open>__optimize_deep\<close>: \<open>_, loss = optimize_recursively(0, x)\<close> and \<open>return loss\<close>.\<close>

definition optimize_deep ::
  "optimizer \<Rightarrow> layer list \<Rightarrow> array \<Rightarrow> array \<Rightarrow> pyobj \<Rightarrow> (error + real) \<times> heap" where
  "optimize_deep self layers x y_true loss_fun =
     (let r = optimize_recursively (learning_rate self) (momentum self) y_true loss_fun 0 x
                (layers, velocities self)
      in case fst r of
           Inl e \<Rightarrow> (Inl e, snd r)
         | Inr None \<Rightarrow> (Inl TypeError, snd r)
         | Inr (Some p) \<Rightarrow> (Inr (snd p), snd r))"

text \<open>
  \<open>optimize\<close>. Line 37, \<open>loss = 0\<close>, rebinds the parameter \<open>loss\<close> before anything reads
  it, so \<open>__optimize_deep\<close> receives the integer. The layers of the list are the objects
  the target holds: the target is read back from the heap the traversal leaves.
\<close>

definition optimize ::
  "optimizer \<Rightarrow> int \<Rightarrow> array \<Rightarrow> array \<Rightarrow> loss_function
     \<Rightarrow> (error + optimal_result) \<times> optimizer" where
  "optimize self epoch x y_true loss =
     (let loss = PyInt 0 in
      case target self of
        None \<Rightarrow> (Inl AttributeError, self)
      | Some t \<Rightarrow>
          (case t of
             CompositeLayer values \<Rightarrow>
               (let r = optimize_deep self values x y_true loss;
                    self' = self\<lparr>target := Some (CompositeLayer (fst (snd r))),
                                 velocities := snd (snd r)\<rparr>
                in case fst r of
                     Inl e \<Rightarrow> (Inl e, self')
                   | Inr l \<Rightarrow>
                       (Inr \<lparr>result_layer = CompositeLayer (fst (snd r)), result_loss = l\<rparr>, self'))
           | it \<Rightarrow>
               (let r = optimize_deep self [it] x y_true loss;
                    self' = self\<lparr>target := Some (hd (fst (snd r))),
                                 velocities := snd (snd r)\<rparr>
                in case fst r of
                     Inl e \<Rightarrow> (Inl e, self')
                   | Inr l \<Rightarrow> (Inr \<lparr>result_layer = hd (fst (snd r)), result_loss = l\<rparr>, self'))))"

section \<open>Layer graphs with a trainable layer\<close>

text \<open>The graph is a \<open>WeightLayer\<close> or a \<open>BiasedWeightLayer\<close>, or a composite with such a
  layer among its children, at any depth.\<close>

fun contains_weighted :: "layer \<Rightarrow> bool" where
  "contains_weighted (WeightLayer weight) = True"
| "contains_weighted (BiasedWeightLayer weight bias) = True"
| "contains_weighted (ActivationLayer f) = False"
| "contains_weighted (ReshapeLayer t) = False"
| "contains_weighted (CompositeLayer values) = list_ex contains_weighted values"

section \<open>Properties of the array operations\<close>
















section \<open>Velocity initialisation without a velocity attribute\<close>

text \<open>On an optimizer whose velocity attribute was never assigned, the initialisation raises
  exactly when it reaches a trainable layer.\<close>

lemma init_velocity_unset:
  "init_velocity None g i = (if contains_weighted g then Inl AttributeError else Inr None)"
  "init_velocity_loop None gs j = (if list_ex contains_weighted gs then Inl AttributeError else Inr None)"
  by (induction "None :: velocity_store option" g i and "None :: velocity_store option" gs j
      rule: init_velocity_init_velocity_loop.induct) auto

section \<open>The traversal never returns a gradient\<close>

text \<open>
  Started at a position inside the list, \<open>optimize_recursively\<close> raises or returns
  \<open>None\<close>, and leaves the heap as it found it: the recursion stops at the last position
  with \<open>IndexError\<close>, before any of the backward blocks runs.
\<close>

lemma unpack_raises:
  assumes "snd r = h \<and> (\<forall>p. fst r \<noteq> Inr (Some p))"
  shows "snd (unpack r k) = h \<and> (\<forall>p. fst (unpack r k) \<noteq> Inr (Some p))"
  using assms by (cases "fst r") (auto simp: unpack_def split: option.splits)

lemma traversal_raises:
  "layer_num < length (fst h) \<Longrightarrow>
   snd (optimize_recursively lr mo y_true loss_fun layer_num a_prev h) = h \<and>
   (\<forall>p. fst (optimize_recursively lr mo y_true loss_fun layer_num a_prev h) \<noteq> Inr (Some p))"
proof (induction lr mo y_true loss_fun layer_num a_prev h rule: optimize_recursively.induct)
  case (1 lr mo y_true loss_fun layer_num a_prev h)
  let ?r = "optimize_recursively lr mo y_true loss_fun layer_num a_prev h"
  show ?case
  proof (cases "layer_num + 1 \<ge> length (fst h)")
    case True
    with "1.prems" show ?thesis by (simp add: optimize_recursively.simps)
  next
    case False
    then have lt: "layer_num + 1 < length (fst h)" and n1: "\<not> length (fst h) \<le> layer_num"
      and n2: "\<not> length (fst h) \<le> layer_num + 1" by simp_all
    show ?thesis
    proof (cases "fst h ! (layer_num + 1)")
      case (WeightLayer weight)
      show ?thesis
      proof (cases "np_dot weight a_prev")
        case (Inl e)
        then show ?thesis using WeightLayer n1 n2
          by (simp add: optimize_recursively.simps [of lr mo y_true loss_fun layer_num])
      next
        case (Inr z)
        have eq: "?r = unpack (optimize_recursively lr mo y_true loss_fun (layer_num + 1) z h)
                    (backward_weight lr mo layer_num weight a_prev (snd (shape a_prev)))"
          using WeightLayer n1 n2 Inr
          by (simp add: optimize_recursively.simps [of lr mo y_true loss_fun layer_num])
        show ?thesis
          unfolding eq by (rule unpack_raises [OF "1.IH"(1) [OF n1 n2 WeightLayer Inr lt]])
      qed
    next
      case (BiasedWeightLayer weight bias)
      show ?thesis
      proof (cases "forward_biased weight bias a_prev")
        case (Inl e)
        then show ?thesis using BiasedWeightLayer n1 n2
          by (simp add: optimize_recursively.simps [of lr mo y_true loss_fun layer_num])
      next
        case (Inr z)
        have eq: "?r = unpack (optimize_recursively lr mo y_true loss_fun (layer_num + 1) z h)
                    (backward_biased lr mo layer_num weight bias a_prev (snd (shape a_prev)))"
          using BiasedWeightLayer n1 n2 Inr
          by (simp add: optimize_recursively.simps [of lr mo y_true loss_fun layer_num])
        show ?thesis
          unfolding eq by (rule unpack_raises [OF "1.IH"(2) [OF n1 n2 BiasedWeightLayer Inr lt]])
      qed
    next
      case (ActivationLayer f)
      have eq: "?r = unpack (optimize_recursively lr mo y_true loss_fun (layer_num + 1)
                      (act_apply f a_prev) h) (\<lambda>da_next loss h'. (Inl UnboundLocalError, h'))"
        using ActivationLayer n1 n2
        by (simp add: optimize_recursively.simps [of lr mo y_true loss_fun layer_num])
      show ?thesis
          unfolding eq by (rule unpack_raises [OF "1.IH"(3) [OF n1 n2 ActivationLayer lt]])
    next
      case (ReshapeLayer t)
      have eq: "?r = unpack (optimize_recursively lr mo y_true loss_fun (layer_num + 1)
                      (t a_prev) h) (\<lambda>da_next loss h'. (Inr (Some (t da_next, loss)), h'))"
        using ReshapeLayer n1 n2
        by (simp add: optimize_recursively.simps [of lr mo y_true loss_fun layer_num])
      show ?thesis
          unfolding eq by (rule unpack_raises [OF "1.IH"(4) [OF n1 n2 ReshapeLayer lt]])
    next
      case (CompositeLayer children)
      then show ?thesis using n1 n2
        by (simp add: optimize_recursively.simps [of lr mo y_true loss_fun layer_num])
    qed
  qed
qed

section \<open>A step never returns\<close>

text \<open>
  \<open>__optimize_deep\<close> on a list with a layer in it raises and changes nothing; on the empty
  list it reaches the base case, where \<open>optimize\<close> has put an integer in the place of the
  loss function. So every call of \<open>optimize\<close> raises, and leaves the optimizer and the
  layers as they were.
\<close>

lemma optimize_deep_raises:
  assumes "layers \<noteq> []"
  shows "\<exists>e. optimize_deep self layers x y_true loss_fun = (Inl e, (layers, velocities self))"
proof -
  let ?r = "optimize_recursively (learning_rate self) (momentum self) y_true loss_fun 0 x
              (layers, velocities self)"
  have "snd ?r = (layers, velocities self) \<and> (\<forall>p. fst ?r \<noteq> Inr (Some p))"
    by (rule traversal_raises) (use assms in simp)
  then show ?thesis
    by (cases "fst ?r") (auto simp: optimize_deep_def Let_def split: option.splits)
qed

lemma optimize_deep_empty:
  "optimize_deep self [] x y_true (PyInt n) = (Inl AttributeError, ([], velocities self))"
  by (simp add: optimize_deep_def optimize_recursively.simps base_case_def)

lemma optimize_raises: "\<exists>e. optimize self epoch x y_true loss = (Inl e, self)"
proof (cases "target self")
  case None
  then show ?thesis by (simp add: optimize_def)
next
  case (Some t)
  show ?thesis
  proof (cases "\<exists>children. t = CompositeLayer children")
    case True
    then obtain children where t: "t = CompositeLayer children" by blast
    show ?thesis
    proof (cases "children = []")
      case True
      then show ?thesis using Some t by (simp add: optimize_def optimize_deep_empty)
    next
      case False
      from optimize_deep_raises [OF this] obtain e where
        "optimize_deep self children x y_true (PyInt 0) = (Inl e, (children, velocities self))"
        by blast
      then show ?thesis using Some t by (simp add: optimize_def)
    qed
  next
    case False
    have "[t] \<noteq> []" by simp
    from optimize_deep_raises [OF this] obtain e where
      "optimize_deep self [t] x y_true (PyInt 0) = (Inl e, ([t], velocities self))"
      by blast
    then show ?thesis using Some False by (cases t) (simp_all add: optimize_def)
  qed
qed

section \<open>The claims\<close>

subsection \<open>C1: the concrete scenario\<close>

text \<open>
  C1 says that for the single \<open>WeightLayer\<close> with \<open>W = [[2]]\<close>, input \<open>[[3]]\<close>, target
  \<open>[[0]]\<close>, mean-squared-error loss, learning rate 0.1 and momentum 0, one call of
  \<open>optimize\<close> returns the loss 36 and leaves the weight \<open>[[-1.6]]\<close>. The code does not:
  \<open>prepare\<close> on the new optimizer raises \<open>AttributeError\<close> (the target is assigned, the
  velocities are not), and \<open>optimize\<close> on that target raises \<open>IndexError\<close> whatever the
  velocity attribute holds, because the one-element list is indexed at \<open>layer_num + 1\<close>.
  The weight stays \<open>[[2]]\<close>.
\<close>

theorem C1_concrete_scenario_raises:
  "prepare (GradientDescentOptimizer (1 / 10) 0) (\<lambda>u. WeightLayer [[2]]) =
     (Inl AttributeError,
      \<lparr>learning_rate = 1 / 10, momentum = 0, target = Some (WeightLayer [[2]]),
       velocities = None\<rparr>) \<and>
   optimize \<lparr>learning_rate = 1 / 10, momentum = 0, target = Some (WeightLayer [[2]]),
             velocities = vs\<rparr> epoch [[3]] [[0]] mean_squared_error =
     (Inl IndexError,
      \<lparr>learning_rate = 1 / 10, momentum = 0, target = Some (WeightLayer [[2]]),
       velocities = vs\<rparr>)"
  by (simp add: prepare_def GradientDescentOptimizer_def optimize_def optimize_deep_def
      optimize_recursively.simps)

subsection \<open>C2: the loss of the base case\<close>

text \<open>
  C2 says that the base case computes the loss and its gradient with the loss function the
  caller supplied, and that the result of \<open>optimize\<close> carries that loss. The code never
  returns a result: every call of \<open>optimize\<close> raises. On the empty composite, where the
  traversal is the base case alone, the exception is the \<open>AttributeError\<close> of the integer
  that replaced the caller's loss function.
\<close>

theorem C2_optimize_never_returns_loss:
  "(\<exists>e. optimize self epoch x y_true loss = (Inl e, self)) \<and>
   fst (optimize (snd (prepare (GradientDescentOptimizer lr mo) (\<lambda>u. CompositeLayer [])))
          epoch x y_true loss) = Inl AttributeError"
  using optimize_raises [of self epoch x y_true loss]
  by (simp add: prepare_def GradientDescentOptimizer_def optimize_def optimize_deep_def
      optimize_recursively.simps base_case_def)

subsection \<open>C3: the indices of the traversal\<close>

text \<open>
  C3 says that the step at position \<open>i\<close> of a flat composite works with the parameters of
  layer \<open>i\<close> and with the velocities stored under \<open>i\<close>. The code takes the layer at
  \<open>i + 1\<close>. For the network of a 1x2 weight followed by a 1x1 weight and a 2x1 input, the
  first layer maps the input to \<open>[[7]]\<close>, but the step at position 0 multiplies the second
  layer's weight with the input and raises \<open>ValueError\<close>. And the update block of position
  0, run on the second layer's weight with the velocities that the initialisation is to
  store for this network, reads the first layer's velocity under key 0, overwrites it with
  a gradient of the second layer, and fails to subtract it from that layer's weight.
\<close>

theorem C3_traversal_applies_next_layer:
  "optimize (self\<lparr>target := Some (CompositeLayer [WeightLayer [[1, 1]], WeightLayer [[5]]])\<rparr>)
     epoch [[3], [4]] y_true loss =
     (Inl ValueError,
      self\<lparr>target := Some (CompositeLayer [WeightLayer [[1, 1]], WeightLayer [[5]]])\<rparr>) \<and>
   np_dot [[1, 1]] [[3], [4]] = Inr [[7]] \<and>
   np_dot [[5]] [[3], [4]] = Inl ValueError \<and>
   backward_weight (1 / 10) 0 0 [[5]] [[3]] 1 [[2]] l
     ([WeightLayer [[1, 1]], WeightLayer [[5]]],
      Some [1 \<mapsto> [''dw'' \<mapsto> [[0]]], 0 \<mapsto> [''dw'' \<mapsto> [[0, 0]]]]) =
     (Inl ValueError,
      ([WeightLayer [[1, 1]], WeightLayer [[5]]],
       Some [1 \<mapsto> [''dw'' \<mapsto> [[0]]], 0 \<mapsto> [''dw'' \<mapsto> [[6, 6]]]]))"
  by (simp add: optimize_def optimize_deep_def optimize_recursively.simps
      backward_weight_def attempt_def np_dot_def np_transpose_def shape_def np_div_def
      lookup_velocity_def step_velocity_def calculate_velocity_def np_add_def broadcast_dim_def
      broadcast_to_def np_scale_def descend_def np_isub_def store_velocity_def)

subsection \<open>C4: activation layers\<close>

text \<open>
  C4 says that at an \<open>ActivationLayer\<close> the traversal returns the gradient of the rest,
  multiplied by the derivative at the input of the layer. The code returns no gradient from
  an activation layer: the step that works on the activation layer at index 1 never returns
  a pair, whatever the other layers are, and \<open>optimize\<close> on two activation layers raises
  \<open>IndexError\<close>.
\<close>

theorem C4_activation_case_never_returns:
  "fst (optimize_recursively lr mo y_true loss_fun 0 a_prev
          (first # ActivationLayer f # others, vs)) \<noteq> Inr (Some p) \<and>
   optimize
     (self\<lparr>target := Some (CompositeLayer
        [ActivationLayer LINEAR_ACTIVATION, ActivationLayer RELU_ACTIVATION])\<rparr>)
     epoch x y_true loss =
     (Inl IndexError,
      self\<lparr>target := Some (CompositeLayer
        [ActivationLayer LINEAR_ACTIVATION, ActivationLayer RELU_ACTIVATION])\<rparr>)"
proof
  show "fst (optimize_recursively lr mo y_true loss_fun 0 a_prev
          (first # ActivationLayer f # others, vs)) \<noteq> Inr (Some p)"
    using traversal_raises
      [of 0 "(first # ActivationLayer f # others, vs)" lr mo y_true loss_fun a_prev]
    by (cases p) simp
next
  show "optimize
     (self\<lparr>target := Some (CompositeLayer
        [ActivationLayer LINEAR_ACTIVATION, ActivationLayer RELU_ACTIVATION])\<rparr>)
     epoch x y_true loss =
     (Inl IndexError,
      self\<lparr>target := Some (CompositeLayer
        [ActivationLayer LINEAR_ACTIVATION, ActivationLayer RELU_ACTIVATION])\<rparr>)"
    by (simp add: optimize_def optimize_deep_def optimize_recursively.simps unpack_def)
qed

subsection \<open>C5: what prepare allocates\<close>

text \<open>
  C5 says that \<open>prepare\<close> succeeds on every layer graph and leaves one velocity entry for
  each weighted child. On a new optimizer and a composite of a \<open>BiasedWeightLayer\<close>, an
  \<open>ActivationLayer\<close> and a \<open>WeightLayer\<close>, the code raises \<open>AttributeError\<close> and there
  is no velocity store.
\<close>

theorem C5_prepare_allocates_nothing:
  "prepare (GradientDescentOptimizer lr mo)
     (\<lambda>u. CompositeLayer
        [BiasedWeightLayer [[1, 2]] [[0]], ActivationLayer RELU_ACTIVATION, WeightLayer [[3]]]) =
     (Inl AttributeError,
      \<lparr>learning_rate = lr, momentum = mo,
       target = Some (CompositeLayer
         [BiasedWeightLayer [[1, 2]] [[0]], ActivationLayer RELU_ACTIVATION, WeightLayer [[3]]]),
       velocities = None\<rparr>)"
  by (simp add: prepare_def GradientDescentOptimizer_def)

subsection \<open>C6: preparing again\<close>

text \<open>
  C6 says that a second \<open>prepare\<close> replaces the target and the velocity store, which then
  holds the entries of the new graph only. The code replaces the target; the velocities it
  neither creates nor resets. After a first \<open>prepare\<close> with an activation layer, which
  succeeds, the second one with a \<open>WeightLayer\<close> raises \<open>AttributeError\<close> and leaves no
  store. And the initialisation run on a store that holds an entry under key 1 keeps that
  entry beside the one of the new graph.
\<close>

theorem C6_second_prepare_raises:
  "prepare (GradientDescentOptimizer lr mo) (\<lambda>u. ActivationLayer LINEAR_ACTIVATION) =
     (Inr (),
      \<lparr>learning_rate = lr, momentum = mo,
       target = Some (ActivationLayer LINEAR_ACTIVATION), velocities = None\<rparr>) \<and>
   prepare
     \<lparr>learning_rate = lr, momentum = mo,
      target = Some (ActivationLayer LINEAR_ACTIVATION), velocities = None\<rparr>
     (\<lambda>u. WeightLayer [[2]]) =
     (Inl AttributeError,
      \<lparr>learning_rate = lr, momentum = mo, target = Some (WeightLayer [[2]]),
       velocities = None\<rparr>) \<and>
   init_velocity (Some [1 \<mapsto> [''dw'' \<mapsto> [[0]]]]) (CompositeLayer [WeightLayer [[2, 3]]]) 0 =
     Inr (Some [1 \<mapsto> [''dw'' \<mapsto> [[0]]], 0 \<mapsto> [''dw'' \<mapsto> [[0, 0]]]])"
  by (simp add: prepare_def GradientDescentOptimizer_def np_zeros_def shape_def)

subsection \<open>C7: zero momentum\<close>



subsection \<open>C8: two steps with momentum\<close>



subsection \<open>C9: the epoch\<close>

text \<open>
  C9: \<open>optimize\<close> gives the same result and leaves the same optimizer, layers and
  velocities for any two values of \<open>epoch\<close>, all else equal.
\<close>

theorem C9_optimize_ignores_epoch:
  "optimize self e1 x y_true loss = optimize self e2 x y_true loss"
  by (simp add: optimize_def)

subsection \<open>C10: the first prepare\<close>

text \<open>
  C10: when the graph of the supplier contains a \<open>WeightLayer\<close> or a
  \<open>BiasedWeightLayer\<close>, the first \<open>prepare\<close> on a newly constructed optimizer raises
  \<open>AttributeError\<close>: the target is assigned, and the velocity attribute still does not
  exist.
\<close>

theorem C10_prepare_fresh_raises:
  assumes "contains_weighted (params_supplier ())"
  shows "prepare (GradientDescentOptimizer lr mo) params_supplier =
           (Inl AttributeError,
            \<lparr>learning_rate = lr, momentum = mo,
             target = Some (params_supplier ()), velocities = None\<rparr>)"
  using assms by (simp add: prepare_def GradientDescentOptimizer_def init_velocity_unset)

text \<open>A weighted layer as the second child of a composite.\<close>

theorem C10_prepare_fresh_raises_witness:
  "contains_weighted
     (CompositeLayer [ActivationLayer RELU_ACTIVATION, BiasedWeightLayer [[1]] [[0]]]) \<and>
   prepare (GradientDescentOptimizer (1 / 10) (9 / 10))
     (\<lambda>u. CompositeLayer [ActivationLayer RELU_ACTIVATION, BiasedWeightLayer [[1]] [[0]]]) =
     (Inl AttributeError,
      \<lparr>learning_rate = 1 / 10, momentum = 9 / 10,
       target = Some (CompositeLayer
         [ActivationLayer RELU_ACTIVATION, BiasedWeightLayer [[1]] [[0]]]),
       velocities = None\<rparr>)"
  using C10_prepare_fresh_raises
    [where params_supplier =
        "\<lambda>u. CompositeLayer [ActivationLayer RELU_ACTIVATION, BiasedWeightLayer [[1]] [[0]]]"
      and lr = "1 / 10" and mo = "9 / 10"]
  by simp

end
